theory Spec2Isabelle
  imports Complex_Main
begin

section \<open>Numbers, strings and errors\<close>

text \<open>
  A TypeScript \<open>number\<close> is an IEEE double. It is modelled by its value, a real number,
  and every arithmetic operation of the source rounds its exact result to the nearest
  double, ties to the even significand (\<open>fl\<close>): 53 bits of significand, and gradual
  underflow with the least quantum \<open>2^-1074\<close>. NaN and the infinities are not values of
  the model: where the source would compute NaN (a division of zero by zero, the
  square root of a negative number) or divide by zero, the model stops with the error
  \<open>NonFinite\<close>, and overflow beyond the largest double is not modelled. Array indices and
  window sizes are natural numbers; a span is an integer, so that the subtraction
  \<open>i - top.index\<close> of the source is the integer subtraction and not a truncating one.

  A string is a list of bytes (UTF-8). The string functions below are those of
  JavaScript on ASCII text; a byte above 127 is neither a letter nor white space here.
\<close>

type_synonym number = real

datatype error = TypeError | NonFinite

text \<open>Rounding to the nearest integer, a tie to the even one.\<close>

definition round_half_even :: "real \<Rightarrow> int" where
  "round_half_even r =
     (let f = \<lfloor>r\<rfloor>
      in if r - of_int f < 1 / 2 then f
         else if 1 / 2 < r - of_int f then f + 1
         else if even f then f else f + 1)"

text \<open>
  The exponent of the quantum (the unit in the last place) of the doubles around \<open>x\<close>,
  and the double nearest to \<open>x\<close>.
\<close>

definition quantum_exp :: "real \<Rightarrow> int" where
  "quantum_exp x = max (\<lfloor>log 2 \<bar>x\<bar>\<rfloor> - 52) (- 1074)"

definition fl :: "real \<Rightarrow> number" where
  "fl x =
     (if x = 0 then 0
      else of_int (round_half_even (x / 2 powi quantum_exp x)) * 2 powi quantum_exp x)"


text \<open>The operators \<open>+\<close>, \<open>-\<close>, \<open>*\<close> and \<open>/\<close> on numbers.\<close>

definition js_add :: "number \<Rightarrow> number \<Rightarrow> number" where
  "js_add a b = fl (a + b)"

definition js_sub :: "number \<Rightarrow> number \<Rightarrow> number" where
  "js_sub a b = fl (a - b)"

definition js_mul :: "number \<Rightarrow> number \<Rightarrow> number" where
  "js_mul a b = fl (a * b)"

definition js_div :: "number \<Rightarrow> number \<Rightarrow> error + number" where
  "js_div a b = (if b = 0 then Inl NonFinite else Inr (fl (a / b)))"

definition lower_char :: "char \<Rightarrow> char" where
  "lower_char c =
     (case map_of (zip ''ABCDEFGHIJKLMNOPQRSTUVWXYZ'' ''abcdefghijklmnopqrstuvwxyz'') c of
        Some l \<Rightarrow> l
      | None \<Rightarrow> c)"

definition toLowerCase :: "string \<Rightarrow> string" where
  "toLowerCase s = map lower_char s"

definition is_space :: "char \<Rightarrow> bool" where
  "is_space c = (c \<in> set [CHR 0x09, CHR 0x0A, CHR 0x0B, CHR 0x0C, CHR 0x0D, CHR 0x20])"

definition trim :: "string \<Rightarrow> string" where
  "trim s = rev (dropWhile is_space (rev (dropWhile is_space s)))"

primrec starts_with :: "string \<Rightarrow> string \<Rightarrow> bool" where
  "starts_with s [] = True"
| "starts_with s (p # ps) = (case s of [] \<Rightarrow> False | c # cs \<Rightarrow> c = p \<and> starts_with cs ps)"

text \<open>\<open>s.includes(w)\<close>: \<open>w\<close> occurs in \<open>s\<close>.\<close>

primrec str_includes :: "string \<Rightarrow> string \<Rightarrow> bool" where
  "str_includes [] w = (w = [])"
| "str_includes (c # cs) w = (starts_with (c # cs) w \<or> str_includes cs w)"

text \<open>\<open>xs.join(sep)\<close>.\<close>

fun join :: "string \<Rightarrow> string list \<Rightarrow> string" where
  "join sep [] = []"
| "join sep [x] = x"
| "join sep (x # y # ys) = x @ sep @ join sep (y # ys)"

text \<open>The digit \<open>d\<close>, below ten, as a character; and the test for a decimal digit.\<close>

definition digit_char :: "nat \<Rightarrow> char" where
  "digit_char d = ''0123456789'' ! (d mod 10)"

definition is_digit :: "char \<Rightarrow> bool" where
  "is_digit c = (c \<in> set ''0123456789'')"

text \<open>The decimal digits of a natural number, as \<open>String(n)\<close> prints them.\<close>

function nat_to_string :: "nat \<Rightarrow> string" where
  "nat_to_string n =
     (if n < 10 then [digit_char n] else nat_to_string (n div 10) @ [digit_char (n mod 10)])"
  by pat_completeness auto
termination
  by (relation "measure id") auto

declare nat_to_string.simps [simp del]

definition int_to_string :: "int \<Rightarrow> string" where
  "int_to_string k = (if k < 0 then CHR ''-'' # nat_to_string (nat (- k)) else nat_to_string (nat k))"

text \<open>
  \<open>x.toFixed(2)\<close>: the sign, then the integer \<open>n\<close> for which \<open>n / 100\<close> is closest to
  \<open>|x|\<close> (the larger one of two), printed with two decimals. From \<open>10^21\<close> on JavaScript
  prints the exponent notation of the double instead, which the real numbers do not
  determine; the model keeps the decimal notation there.
\<close>

definition toFixed2 :: "number \<Rightarrow> string" where
  "toFixed2 x =
     (let s = (if x < 0 then ''-'' else '''');
          n = nat \<lfloor>\<bar>x\<bar> * 100 + 1 / 2\<rfloor>
      in s @ nat_to_string (n div 100) @ ''.'' @ [digit_char (n div 10 mod 10), digit_char (n mod 10)])"

text \<open>\<open>parseInt\<close> on a string of decimal digits.\<close>

definition parseInt :: "string \<Rightarrow> nat" where
  "parseInt s = foldl (\<lambda>a c. 10 * a + ((of_char c :: nat) - 48)) 0 s"

section \<open>Regular expressions\<close>

text \<open>
  The fragment of JavaScript's regular expressions that the source uses, matched
  case-insensitively (flag \<open>i\<close>). \<open>rmatch r s\<close> lists, in the order in which the
  backtracking matcher tries them, what is left of \<open>s\<close> after a match of \<open>r\<close> at its
  start: an alternative tries its left side first, and \<open>?\<close>, \<open>*\<close> and \<open>+\<close> are greedy.
\<close>

datatype regex =
    Lit string
  | Dot
  | Digit
  | Opt regex
  | Star regex
  | Plus regex
  | Seq regex regex
  | Alt regex regex

definition canonicalize :: "char \<Rightarrow> char" where
  "canonicalize c =
     (case map_of (zip ''abcdefghijklmnopqrstuvwxyz'' ''ABCDEFGHIJKLMNOPQRSTUVWXYZ'') c of
        Some u \<Rightarrow> u
      | None \<Rightarrow> c)"

definition is_line_terminator :: "char \<Rightarrow> bool" where
  "is_line_terminator c = (c = CHR 0x0A \<or> c = CHR 0x0D)"

primrec lit_match :: "string \<Rightarrow> string \<Rightarrow> string option" where
  "lit_match [] s = Some s"
| "lit_match (p # ps) s =
     (case s of [] \<Rightarrow> None
      | c # cs \<Rightarrow> if canonicalize c = canonicalize p then lit_match ps cs else None)"

text \<open>
  Repetition with fuel: an iteration that consumes nothing is not continued, so the
  length of the string is fuel enough.
\<close>

primrec star_iter :: "(string \<Rightarrow> string list) \<Rightarrow> nat \<Rightarrow> string \<Rightarrow> string list" where
  "star_iter f 0 s = [s]"
| "star_iter f (Suc n) s =
     concat (map (star_iter f n) (filter (\<lambda>t. length t < length s) (f s))) @ [s]"

primrec rmatch :: "regex \<Rightarrow> string \<Rightarrow> string list" where
  "rmatch (Lit w) s = (case lit_match w s of None \<Rightarrow> [] | Some t \<Rightarrow> [t])"
| "rmatch Dot s = (case s of [] \<Rightarrow> [] | c # cs \<Rightarrow> if is_line_terminator c then [] else [cs])"
| "rmatch Digit s = (case s of [] \<Rightarrow> [] | c # cs \<Rightarrow> if is_digit c then [cs] else [])"
| "rmatch (Opt r) s = rmatch r s @ [s]"
| "rmatch (Star r) s = star_iter (rmatch r) (length s) s"
| "rmatch (Plus r) s = concat (map (\<lambda>t. star_iter (rmatch r) (length t) t) (rmatch r s))"
| "rmatch (Seq a b) s = concat (map (rmatch b) (rmatch a s))"
| "rmatch (Alt a b) s = rmatch a s @ rmatch b s"

text \<open>
  \<open>s.match(r)\<close> without the flag \<open>g\<close>: the first match at the leftmost position that
  has one; the result is the matched text, \<open>None\<close> for \<open>null\<close>.
\<close>

fun str_match :: "string \<Rightarrow> regex \<Rightarrow> string option" where
  "str_match s r =
     (case rmatch r s of
        t # _ \<Rightarrow> Some (take (length s - length t) s)
      | [] \<Rightarrow> (case s of [] \<Rightarrow> None | _ # cs \<Rightarrow> str_match cs r))"

declare str_match.simps [simp del]

section \<open>types.ts\<close>

text \<open>
  The field \<open>open\<close> is \<open>open_f\<close> and \<open>span\<close> is \<open>span_f\<close> here; \<open>span?: number\<close> is
  optional, \<open>None\<close> is \<open>undefined\<close>.
\<close>

record StockData =
  date :: string
  open_f :: number
  high :: number
  low :: number
  close :: number
  volume :: number
  span_f :: "int option"

text \<open>
  A \<open>MovingAverage\<close> object is built by assigning the property \<open>ma<w>\<close> for every
  window size \<open>w\<close>; \<open>averages r w\<close> is that property, \<open>None\<close> when it was never
  assigned. The interface names three of them.
\<close>

record MovingAverage =
  ma_date :: string
  averages :: "nat \<rightharpoonup> number"

definition ma5 :: "MovingAverage \<Rightarrow> number option" where
  "ma5 r = averages r 5"

definition ma10 :: "MovingAverage \<Rightarrow> number option" where
  "ma10 r = averages r 10"

definition ma20 :: "MovingAverage \<Rightarrow> number option" where
  "ma20 r = averages r 20"

record SentimentData =
  s_date :: string
  score :: number
  confidence :: number
  s_volume :: number

section \<open>stockSpanCalculator.ts\<close>

text \<open>The elements of \<open>StockSpanCalculator.stack\<close>: \<open>{ index: number; price: number }\<close>.\<close>

record entry =
  index :: nat
  price :: number

text \<open>
  The inner \<open>while\<close> loop of \<open>calculateSpan\<close>: pop while the stack is not empty and
  the price on top is at most the current price. The top of the stack is the head
  of the list.
\<close>

fun pop_while :: "entry list \<Rightarrow> number \<Rightarrow> entry list" where
  "pop_while [] x = []"
| "pop_while (e # st) x = (if price e \<le> x then pop_while st x else e # st)"

text \<open>
  The \<open>for\<close> loop of \<open>calculateSpan\<close>, from index \<open>i\<close> on, with the stack and the
  spans pushed so far.
\<close>

function span_loop :: "number list \<Rightarrow> nat \<Rightarrow> entry list \<Rightarrow> int list \<Rightarrow> int list" where
  "span_loop prices i stack spans =
     (if i < length prices then
        let st = pop_while stack (prices ! i);
            span = (case st of [] \<Rightarrow> int i + 1 | e # _ \<Rightarrow> int i - int (index e))
        in span_loop prices (Suc i) (\<lparr>index = i, price = prices ! i\<rparr> # st) (spans @ [span])
      else spans)"
  by pat_completeness auto
termination
  by (relation "measure (\<lambda>(prices, i, stack, spans). length prices - i)") auto

declare span_loop.simps [simp del]

text \<open>The stack is reset at the start of every call, so the result depends on the prices only.\<close>

definition calculateSpan :: "number list \<Rightarrow> int list" where
  "calculateSpan prices = span_loop prices 0 [] []"


text \<open>
  The span as the glossary words it: the number of consecutive bars, counted backwards
  from bar \<open>i\<close> (inclusive), whose close is at most the close of bar \<open>i\<close>.
\<close>

definition span_spec :: "number list \<Rightarrow> nat \<Rightarrow> int" where
  "span_spec closes i =
     int (length (takeWhile (\<lambda>c. c \<le> closes ! i) (rev (take (Suc i) closes))))"

text \<open>
  The stack, read relative to a price \<open>x\<close> at position \<open>hi\<close>: its top is the nearest
  bar before \<open>hi\<close> with a price above \<open>x\<close>, every bar in between is at most \<open>x\<close>, and
  the rest of the stack is the same chain for the top.
\<close>

fun stack_ok :: "number list \<Rightarrow> number \<Rightarrow> nat \<Rightarrow> entry list \<Rightarrow> bool" where
  "stack_ok cs x hi [] = (\<forall>m<hi. cs ! m \<le> x)"
| "stack_ok cs x hi (e # st) =
     (index e < hi \<and> cs ! index e = price e \<and> x < price e \<and>
      (\<forall>m. index e < m \<and> m < hi \<longrightarrow> cs ! m \<le> x) \<and>
      stack_ok cs (price e) (index e) st)"

section \<open>movingAverageCalculator.ts\<close>









definition last_n :: "nat \<Rightarrow> 'a list \<Rightarrow> 'a list" where
  "last_n n xs = drop (length xs - n) xs"




section \<open>sentimentAnalyzer.ts\<close>

text \<open>\<open>s.span || 0\<close>.\<close>

definition span_or_0 :: "StockData \<Rightarrow> int" where
  "span_or_0 s = (case span_f s of None \<Rightarrow> 0 | Some v \<Rightarrow> v)"

text \<open>
  \<open>pearsonCorrelation\<close>; every \<open>reduce\<close> is a fold from the left that starts at 0. The
  square root of a negative number is NaN, which is not \<open>=== 0\<close>, so the quotient is NaN;
  with \<open>y\<close> shorter than \<open>x\<close> the sum of the products is NaN, and so is the quotient
  unless the denominator is zero. \<open>Math.sqrt\<close> rounds the exact root.
\<close>

definition pearsonCorrelation :: "number list \<Rightarrow> number list \<Rightarrow> error + number" where
  "pearsonCorrelation x y =
     (let n = real (length x) in
      if length x = 0 then Inr 0
      else
        let sumX = foldl (\<lambda>a b. js_add a b) 0 x;
            sumY = foldl (\<lambda>a b. js_add a b) 0 y;
            sumXY = foldl (\<lambda>sum (xi, yi). js_add sum (js_mul xi yi)) 0 (zip x y);
            sumXX = foldl (\<lambda>sum xi. js_add sum (js_mul xi xi)) 0 x;
            sumYY = foldl (\<lambda>sum yi. js_add sum (js_mul yi yi)) 0 y;
            numerator = js_sub (js_mul n sumXY) (js_mul sumX sumY);
            radicand = js_mul (js_sub (js_mul n sumXX) (js_mul sumX sumX))
                         (js_sub (js_mul n sumYY) (js_mul sumY sumY))
        in if radicand < 0 then Inl NonFinite
           else
             let denominator = fl (sqrt radicand)
             in if denominator = 0 then Inr 0
                else if length y < length x then Inl NonFinite
                else js_div numerator denominator)"

definition calculateSentimentSpanCorrelation ::
  "SentimentData list \<Rightarrow> StockData list \<Rightarrow> error + number" where
  "calculateSentimentSpanCorrelation sentimentData stockData =
     (if length sentimentData \<noteq> length stockData \<or> length sentimentData < 2 then Inr 0
      else
        let sentimentScores = map score sentimentData;
            spans = map (\<lambda>s. real_of_int (span_or_0 s)) stockData
        in pearsonCorrelation sentimentScores spans)"

section \<open>conversationalAI.ts\<close>

record ConversationalAI =
  stockData :: "StockData list"
  movingAverages :: "MovingAverage list"

definition updateData ::
  "ConversationalAI \<Rightarrow> StockData list \<Rightarrow> MovingAverage list \<Rightarrow> ConversationalAI" where
  "updateData ai sd mas = ai\<lparr>stockData := sd, movingAverages := mas\<rparr>"

text \<open>The emoji of the responses, in UTF-8.\<close>

definition emoji_chart_up :: string where
  "emoji_chart_up = [CHR 0xF0, CHR 0x9F, CHR 0x93, CHR 0x88]"

definition emoji_chart_down :: string where
  "emoji_chart_down = [CHR 0xF0, CHR 0x9F, CHR 0x93, CHR 0x89]"

definition emoji_rocket :: string where
  "emoji_rocket = [CHR 0xF0, CHR 0x9F, CHR 0x9A, CHR 0x80]"

definition emoji_left_right :: string where
  "emoji_left_right = [CHR 0xE2, CHR 0x86, CHR 0x94, CHR 0xEF, CHR 0xB8, CHR 0x8F]"

definition emoji_bar_chart :: string where
  "emoji_bar_chart = [CHR 0xF0, CHR 0x9F, CHR 0x93, CHR 0x8A]"

text \<open>The intent recognition patterns of \<open>processQuery\<close>, in the order of the source.\<close>

definition pattern_moving_average :: regex where
  "pattern_moving_average =
     Seq (Alt (Seq (Lit ''what'') (Seq (Opt (Lit [CHR 0x27])) (Opt (Lit ''s''))))
           (Alt (Lit ''tell me'') (Lit ''show me'')))
      (Seq (Star Dot)
        (Seq (Alt (Lit ''average'') (Alt (Lit ''ma'') (Lit ''moving average'')))
          (Seq (Star Dot) (Plus Digit))))"

definition pattern_span :: regex where
  "pattern_span =
     Alt (Seq (Alt (Lit ''span'') (Lit ''stock span'')) (Seq (Star Dot) (Lit ''today'')))
         (Seq (Lit ''current'') (Seq (Star Dot) (Lit ''span'')))"

definition pattern_price :: regex where
  "pattern_price = Alt (Lit ''price'') (Alt (Lit ''current price'') (Lit ''latest price''))"

definition pattern_trend :: regex where
  "pattern_trend = Alt (Lit ''trend'') (Alt (Lit ''trending'') (Lit ''direction''))"

definition pattern_recommendation :: regex where
  "pattern_recommendation =
     Alt (Lit ''buy'') (Alt (Lit ''sell'') (Alt (Lit ''hold'') (Lit ''recommend'')))"

definition pattern_high :: regex where
  "pattern_high = Alt (Lit ''high'') (Alt (Lit ''highest'') (Lit ''peak''))"

definition pattern_low :: regex where
  "pattern_low = Alt (Lit ''low'') (Alt (Lit ''lowest'') (Lit ''bottom''))"

text \<open>\<open>v || 0\<close> and the truth value of an optional number.\<close>

definition or_0 :: "number option \<Rightarrow> number" where
  "or_0 v = (case v of None \<Rightarrow> 0 | Some x \<Rightarrow> x)"

definition truthy :: "number option \<Rightarrow> bool" where
  "truthy v = (case v of None \<Rightarrow> False | Some x \<Rightarrow> x \<noteq> 0)"

text \<open>\<open>v?.toFixed(2) || 'N/A'\<close>.\<close>

definition fixed_or_na :: "number option \<Rightarrow> string" where
  "fixed_or_na v =
     (case v of None \<Rightarrow> ''N/A''
      | Some x \<Rightarrow> if toFixed2 x = [] then ''N/A'' else toFixed2 x)"

definition handleMovingAverageQuery :: "ConversationalAI \<Rightarrow> string \<Rightarrow> string" where
  "handleMovingAverageQuery ai query =
     (if length (movingAverages ai) = 0
      then ''I don'' @ [CHR 0x27] @ ''t have any stock data loaded yet. Please upload some data first.''
      else
        let latest = last (movingAverages ai);
            days = (case str_match query (Plus Digit) of Some d \<Rightarrow> parseInt d | None \<Rightarrow> 10)
        in if days = 5 \<and> truthy (ma5 latest) then
             ''The 5-day moving average is $'' @ toFixed2 (the (ma5 latest)) @ ''.''
           else if days = 10 \<and> truthy (ma10 latest) then
             ''The 10-day moving average is $'' @ toFixed2 (the (ma10 latest)) @ ''.''
           else if days = 20 \<and> truthy (ma20 latest) then
             ''The 20-day moving average is $'' @ toFixed2 (the (ma20 latest)) @ ''.''
           else
             ''I have moving averages for 5, 10, and 20 days. The latest values are: 5-day: $''
             @ fixed_or_na (ma5 latest) @ '', 10-day: $'' @ fixed_or_na (ma10 latest)
             @ '', 20-day: $'' @ fixed_or_na (ma20 latest) @ ''.'')"

definition handleCurrentSpanQuery :: "ConversationalAI \<Rightarrow> string" where
  "handleCurrentSpanQuery ai =
     (if length (stockData ai) = 0
      then ''No stock data available. Please upload data to see span analysis.''
      else
        let latest = last (stockData ai);
            span = span_or_0 latest;
            interpretation =
              (if span > 10 then '' This indicates a strong bullish trend!''
               else if span > 5 then '' This shows moderate bullish momentum.''
               else if span \<le> 2 then '' This suggests bearish pressure or consolidation.''
               else '' This indicates neutral market sentiment.'')
        in ''The current stock span is '' @ int_to_string span @ '' days.'' @ interpretation)"

text \<open>
  \<open>handlePriceQuery\<close>. With a previous close of zero the percentage is an infinity or
  NaN; \<open>toFixed\<close> prints those by name, and NaN is not \<open>>= 0\<close>.
\<close>

definition handlePriceQuery :: "ConversationalAI \<Rightarrow> string" where
  "handlePriceQuery ai =
     (if length (stockData ai) = 0
      then ''No stock data available. Please upload data to see current price.''
      else
        let latest = last (stockData ai);
            previous = (if length (stockData ai) > 1
                        then Some (stockData ai ! (length (stockData ai) - 2)) else None);
            changeText =
              (case previous of
                 None \<Rightarrow> ''''
               | Some p \<Rightarrow>
                   let change = js_sub (close latest) (close p);
                       direction = (if change \<ge> 0 then emoji_chart_up else emoji_chart_down);
                       percent =
                         (if close p = 0 then
                            (if change > 0 then ''+Infinity''
                             else if change < 0 then ''-Infinity'' else ''NaN'')
                          else
                            let changePercent = js_mul (fl (change / close p)) 100
                            in (if changePercent \<ge> 0 then ''+'' else '''') @ toFixed2 changePercent)
                   in '' '' @ direction @ '' '' @ (if change \<ge> 0 then ''+'' else '''') @ ''$''
                      @ toFixed2 change @ '' ('' @ percent @ ''%)'')
        in ''The current price is $'' @ toFixed2 (close latest) @ ''.'' @ changeText)"

definition handleTrendQuery :: "ConversationalAI \<Rightarrow> string" where
  "handleTrendQuery ai =
     (if length (stockData ai) < 5
      then ''I need more data to analyze the trend. Please provide at least 5 days of data.''
      else
        let recent = last_n 5 (stockData ai);
            priceChanges = map (\<lambda>(d, p). js_sub (close d) (close p)) (zip (tl recent) recent);
            upDays = length (filter (\<lambda>change. change > 0) priceChanges);
            downDays = length (filter (\<lambda>change. change < 0) priceChanges);
            trend = (if upDays \<ge> 3 then ''bullish uptrend''
                     else if downDays \<ge> 3 then ''bearish downtrend''
                     else ''sideways consolidation'');
            emoji = (if upDays \<ge> 3 then emoji_rocket
                     else if downDays \<ge> 3 then emoji_chart_down
                     else emoji_left_right);
            latest = last (stockData ai);
            spanTrend = (if span_or_0 latest > 5 then ''strong momentum'' else ''weak momentum'')
        in emoji @ '' The stock is showing a '' @ trend @ '' with '' @ spanTrend
           @ '' based on the recent 5-day pattern.'')"

text \<open>The signals that \<open>handleRecommendationQuery\<close> pushes, in its order.\<close>

definition recommendation_signals :: "StockData \<Rightarrow> MovingAverage \<Rightarrow> string list" where
  "recommendation_signals latest latestMA =
     (let span = span_or_0 latest in
      (if close latest > or_0 (ma10 latestMA) then [''Price above 10-day MA (Bullish)''] else [])
      @ (if close latest < or_0 (ma10 latestMA) then [''Price below 10-day MA (Bearish)''] else [])
      @ (if span > 7 then [''High span indicates strong momentum (Bullish)''] else [])
      @ (if span \<le> 2 then [''Low span indicates weak momentum (Bearish)''] else []))"

definition handleRecommendationQuery :: "ConversationalAI \<Rightarrow> string" where
  "handleRecommendationQuery ai =
     (if length (stockData ai) = 0 \<or> length (movingAverages ai) = 0
      then ''I need stock data to provide recommendations. Please upload data first.''
      else
        let latest = last (stockData ai);
            latestMA = last (movingAverages ai);
            signals = recommendation_signals latest latestMA;
            bullishSignals = length (filter (\<lambda>s. str_includes s ''Bullish'') signals);
            bearishSignals = length (filter (\<lambda>s. str_includes s ''Bearish'') signals);
            recommendation = (if bullishSignals > bearishSignals then ''BUY''
                              else if bearishSignals > bullishSignals then ''SELL''
                              else ''HOLD'');
            reasoning =
              (if bullishSignals > bearishSignals
               then ''Multiple bullish indicators align for a potential buying opportunity.''
               else if bearishSignals > bullishSignals
               then ''Bearish signals suggest considering a sell position.''
               else ''Mixed signals suggest holding current position.'')
        in emoji_bar_chart @ '' **'' @ recommendation @ ''** - '' @ reasoning
           @ [CHR 0x0A, CHR 0x0A] @ ''Signals: '' @ join '', '' signals)"

text \<open>\<open>Math.max(...xs)\<close> and \<open>Math.min(...xs)\<close> on a list that is not empty.\<close>

definition math_max :: "number list \<Rightarrow> number" where
  "math_max xs = fold max (tl xs) (hd xs)"

definition math_min :: "number list \<Rightarrow> number" where
  "math_min xs = fold min (tl xs) (hd xs)"

text \<open>\<open>highestDay?.date\<close> in a template: the text \<open>undefined\<close> when nothing was found.\<close>

definition date_or_undefined :: "StockData option \<Rightarrow> string" where
  "date_or_undefined d = (case d of None \<Rightarrow> ''undefined'' | Some x \<Rightarrow> date x)"

definition handleHighQuery :: "ConversationalAI \<Rightarrow> string" where
  "handleHighQuery ai =
     (if length (stockData ai) = 0 then ''No data available to find highest price.''
      else
        let highestPrice = math_max (map high (stockData ai));
            highestDay = find (\<lambda>d. high d = highestPrice) (stockData ai)
        in ''The highest price was $'' @ toFixed2 highestPrice @ '' on ''
           @ date_or_undefined highestDay @ ''.'')"

definition handleLowQuery :: "ConversationalAI \<Rightarrow> string" where
  "handleLowQuery ai =
     (if length (stockData ai) = 0 then ''No data available to find lowest price.''
      else
        let lowestPrice = math_min (map low (stockData ai));
            lowestDay = find (\<lambda>d. low d = lowestPrice) (stockData ai)
        in ''The lowest price was $'' @ toFixed2 lowestPrice @ '' on ''
           @ date_or_undefined lowestDay @ ''.'')"

definition responses :: "string list" where
  "responses =
     [''I can help you analyze stock data! Try asking about moving averages, current prices, trends, or recommendations.'',
      ''Ask me about stock spans, price movements, or technical analysis. I'' @ [CHR 0x27] @ ''m here to help!'',
      ''I can provide insights on trends, moving averages, and trading recommendations. What would you like to know?'']"

text \<open>
  \<open>getDefaultResponse\<close>; \<open>rnd\<close> is the value of \<open>Math.random()\<close>. An index outside the
  array gives \<open>undefined\<close>, which is \<open>None\<close>.
\<close>

definition getDefaultResponse :: "number \<Rightarrow> string \<Rightarrow> string option" where
  "getDefaultResponse rnd query =
     (let k = \<lfloor>rnd * real (length responses)\<rfloor>
      in if 0 \<le> k \<and> k < int (length responses) then Some (responses ! nat k) else None)"

text \<open>The array \<open>patterns\<close>: every pattern with its handler.\<close>

definition patterns :: "(regex \<times> (ConversationalAI \<Rightarrow> string \<Rightarrow> string)) list" where
  "patterns =
     [(pattern_moving_average, handleMovingAverageQuery),
      (pattern_span, \<lambda>ai query. handleCurrentSpanQuery ai),
      (pattern_price, \<lambda>ai query. handlePriceQuery ai),
      (pattern_trend, \<lambda>ai query. handleTrendQuery ai),
      (pattern_recommendation, \<lambda>ai query. handleRecommendationQuery ai),
      (pattern_high, \<lambda>ai query. handleHighQuery ai),
      (pattern_low, \<lambda>ai query. handleLowQuery ai)]"

text \<open>The loop \<open>for (const { pattern, handler } of patterns)\<close>.\<close>

fun find_match ::
  "(regex \<times> (ConversationalAI \<Rightarrow> string \<Rightarrow> string)) list \<Rightarrow> ConversationalAI \<Rightarrow> string \<Rightarrow>
   string option" where
  "find_match [] ai normalizedQuery = None"
| "find_match ((pattern, handler) # ps) ai normalizedQuery =
     (if str_match normalizedQuery pattern \<noteq> None then Some (handler ai normalizedQuery)
      else find_match ps ai normalizedQuery)"

text \<open>
  \<open>processQuery\<close>: the value that the promise resolves to; \<open>rnd\<close> is the value that
  \<open>Math.random()\<close> would return.
\<close>

definition processQuery :: "ConversationalAI \<Rightarrow> number \<Rightarrow> string \<Rightarrow> string option" where
  "processQuery ai rnd query =
     (let normalizedQuery = trim (toLowerCase query)
      in case find_match patterns ai normalizedQuery of
           Some response \<Rightarrow> Some response
         | None \<Rightarrow> getDefaultResponse rnd normalizedQuery)"


section \<open>The span calculator computes the span\<close>

lemma pop_while_ok:
  "stack_ok cs y hi st \<Longrightarrow> y \<le> x \<Longrightarrow> hi \<le> i \<Longrightarrow>
   (\<forall>m. hi \<le> m \<and> m < i \<longrightarrow> cs ! m \<le> x) \<Longrightarrow> stack_ok cs x i (pop_while st x)"
proof (induction st arbitrary: y hi)
  case Nil
  then show ?case
    by (metis linorder_not_less order_trans pop_while.simps(1) stack_ok.simps(1))
next
  case (Cons e st)
  show ?case
  proof (cases "price e \<le> x")
    case True
    have ok: "stack_ok cs (price e) (index e) st"
      using Cons.prems(1) by auto
    have between: "\<forall>m. index e \<le> m \<and> m < i \<longrightarrow> cs ! m \<le> x"
    proof (intro allI impI)
      fix m assume m: "index e \<le> m \<and> m < i"
      consider "m = index e" | "index e < m" "m < hi" | "hi \<le> m"
        using m by linarith
      then show "cs ! m \<le> x"
      proof cases
        case 1
        then show ?thesis using Cons.prems(1) True by simp
      next
        case 2
        then have "cs ! m \<le> y" using Cons.prems(1) by simp
        then show ?thesis using Cons.prems(2) by linarith
      next
        case 3
        then show ?thesis using Cons.prems(4) m by simp
      qed
    qed
    have "index e \<le> i"
      using Cons.prems(1,3) by simp
    from Cons.IH [OF ok True this between] True show ?thesis
      by simp
  next
    case False
    have "\<forall>m. index e < m \<and> m < i \<longrightarrow> cs ! m \<le> x"
    proof (intro allI impI)
      fix m assume m: "index e < m \<and> m < i"
      show "cs ! m \<le> x"
      proof (cases "m < hi")
        case True
        then have "cs ! m \<le> y" using Cons.prems(1) m by simp
        then show ?thesis using Cons.prems(2) by linarith
      next
        case False
        then show ?thesis using Cons.prems(4) m by simp
      qed
    qed
    then show ?thesis
      using False Cons.prems(1,3) by simp
  qed
qed

lemma takeWhile_stop:
  "\<forall>c\<in>set xs. P c \<Longrightarrow> \<not> P y \<Longrightarrow> takeWhile P (xs @ y # ys) = xs"
  by (induction xs) auto

lemma span_of_stack:
  assumes "stack_ok cs (cs ! i) i st" "i < length cs"
  shows "(case st of [] \<Rightarrow> int i + 1 | e # _ \<Rightarrow> int i - int (index e)) = span_spec cs i"
proof (cases st)
  case Nil
  then have "\<forall>m<i. cs ! m \<le> cs ! i" using assms(1) by simp
  then have "\<forall>c\<in>set (rev (take (Suc i) cs)). c \<le> cs ! i"
    using assms(2) by (auto simp: in_set_conv_nth less_Suc_eq)
  then have "takeWhile (\<lambda>c. c \<le> cs ! i) (rev (take (Suc i) cs)) = rev (take (Suc i) cs)"
    by (simp add: takeWhile_eq_all_conv)
  then have "span_spec cs i = int (length (rev (take (Suc i) cs)))"
    unfolding span_spec_def by (simp only:)
  then show ?thesis using Nil assms(2) by simp
next
  case (Cons e st')
  let ?j = "index e"
  have j: "?j < i" and gt: "cs ! i < cs ! ?j"
    and le: "\<forall>m. ?j < m \<and> m < i \<longrightarrow> cs ! m \<le> cs ! i"
    using assms(1) Cons by auto
  have "?j < length (take (Suc i) cs)"
    using j assms(2) by simp
  from id_take_nth_drop [OF this]
  have split: "take (Suc i) cs = take ?j cs @ cs ! ?j # drop (Suc ?j) (take (Suc i) cs)"
    using j by (simp add: min_def)
  have all: "\<forall>c\<in>set (rev (drop (Suc ?j) (take (Suc i) cs))). c \<le> cs ! i"
  proof
    fix c assume "c \<in> set (rev (drop (Suc ?j) (take (Suc i) cs)))"
    then obtain k where k: "k < length (drop (Suc ?j) (take (Suc i) cs))"
      and c: "c = drop (Suc ?j) (take (Suc i) cs) ! k"
      by (auto simp: in_set_conv_nth)
    have "c = cs ! (Suc ?j + k)" using k c assms(2) by simp
    moreover have "Suc ?j + k \<le> i" using k assms(2) by simp
    ultimately show "c \<le> cs ! i" using le by (cases "Suc ?j + k = i") auto
  qed
  have rv: "rev (take (Suc i) cs) = rev (drop (Suc ?j) (take (Suc i) cs)) @ cs ! ?j # rev (take ?j cs)"
    by (subst split) simp
  have "\<not> cs ! ?j \<le> cs ! i"
    using gt by simp
  from takeWhile_stop [of _ "\<lambda>c. c \<le> cs ! i", OF all this]
  have "takeWhile (\<lambda>c. c \<le> cs ! i) (rev (take (Suc i) cs)) = rev (drop (Suc ?j) (take (Suc i) cs))"
    by (subst rv) simp
  then have "span_spec cs i = int (length (rev (drop (Suc ?j) (take (Suc i) cs))))"
    unfolding span_spec_def by (simp only:)
  then show ?thesis using Cons j assms(2) by simp
qed

lemma push_ok:
  assumes inv: "\<forall>x. stack_ok cs x i (pop_while stack x)"
  shows "stack_ok cs x (Suc i) (pop_while (\<lparr>index = i, price = cs ! i\<rparr> # pop_while stack (cs ! i)) x)"
proof (cases "cs ! i \<le> x")
  case True
  have "stack_ok cs (cs ! i) i (pop_while stack (cs ! i))"
    using inv by blast
  moreover have "\<forall>m. i \<le> m \<and> m < Suc i \<longrightarrow> cs ! m \<le> x"
    using True by (auto simp: less_Suc_eq)
  ultimately have "stack_ok cs x (Suc i) (pop_while (pop_while stack (cs ! i)) x)"
    using True pop_while_ok [of cs "cs ! i" i "pop_while stack (cs ! i)" x "Suc i"] by simp
  then show ?thesis
    using True by simp
next
  case False
  have "stack_ok cs (cs ! i) i (pop_while stack (cs ! i))"
    using inv by blast
  then show ?thesis
    using False by auto
qed

lemma span_loop_correct:
  "\<forall>x. stack_ok cs x i (pop_while stack x) \<Longrightarrow> length spans = i \<Longrightarrow> i \<le> length cs \<Longrightarrow>
   \<forall>k<i. spans ! k = span_spec cs k \<Longrightarrow>
   length (span_loop cs i stack spans) = length cs \<and>
   (\<forall>k<length cs. span_loop cs i stack spans ! k = span_spec cs k)"
proof (induction cs i stack spans rule: span_loop.induct)
  case (1 prices i stack spans)
  show ?case
  proof (cases "i < length prices")
    case False
    then have "span_loop prices i stack spans = spans"
      by (subst span_loop.simps) simp
    then show ?thesis
      using "1.prems" False by simp
  next
    case True
    define st where "st = pop_while stack (prices ! i)"
    define span where "span = (case st of [] \<Rightarrow> int i + 1 | e # _ \<Rightarrow> int i - int (index e))"
    have "stack_ok prices (prices ! i) i st"
      using "1.prems"(1) st_def by blast
    then have span: "span = span_spec prices i"
      unfolding span_def using True by (rule span_of_stack)
    have a: "\<forall>x. stack_ok prices x (Suc i) (pop_while (\<lparr>index = i, price = prices ! i\<rparr> # st) x)"
      unfolding st_def using push_ok [OF "1.prems"(1)] by blast
    have b: "length (spans @ [span]) = Suc i"
      using "1.prems"(2) by simp
    have c: "Suc i \<le> length prices"
      using True by simp
    have d: "\<forall>k<Suc i. (spans @ [span]) ! k = span_spec prices k"
      using "1.prems"(2,4) span by (auto simp: nth_append less_Suc_eq)
    have "span_loop prices i stack spans =
          span_loop prices (Suc i) (\<lparr>index = i, price = prices ! i\<rparr> # st) (spans @ [span])"
      using True by (subst span_loop.simps) (simp add: st_def span_def Let_def)
    moreover note "1.IH" [OF True st_def span_def a b c d]
    ultimately show ?thesis by simp
  qed
qed

lemma calculateSpan_length: "length (calculateSpan cs) = length cs"
  unfolding calculateSpan_def using span_loop_correct [of cs 0 "[]" "[]"] by simp

lemma calculateSpan_nth: "i < length cs \<Longrightarrow> calculateSpan cs ! i = span_spec cs i"
  unfolding calculateSpan_def using span_loop_correct [of cs 0 "[]" "[]"] by simp

lemma span_spec_bounds: "i < length cs \<Longrightarrow> 1 \<le> span_spec cs i \<and> span_spec cs i \<le> int i + 1"
proof -
  assume i: "i < length cs"
  have "rev (take (Suc i) cs) = cs ! i # rev (take i cs)"
    using i by (simp add: take_Suc_conv_app_nth)
  then have "takeWhile (\<lambda>c. c \<le> cs ! i) (rev (take (Suc i) cs)) =
     cs ! i # takeWhile (\<lambda>c. c \<le> cs ! i) (rev (take i cs))"
    by simp
  then have lo: "1 \<le> span_spec cs i"
    unfolding span_spec_def by simp
  have "length (takeWhile (\<lambda>c. c \<le> cs ! i) (rev (take (Suc i) cs))) \<le> length (rev (take (Suc i) cs))"
    by (rule length_takeWhile_le)
  then have "span_spec cs i \<le> int i + 1"
    unfolding span_spec_def using i by simp
  with lo show ?thesis by simp
qed

lemma span_spec_increasing:
  assumes "\<forall>a b. a < b \<and> b < length cs \<longrightarrow> cs ! a < cs ! b" "i < length cs"
  shows "span_spec cs i = int i + 1"
proof -
  have "\<forall>c\<in>set (rev (take (Suc i) cs)). c \<le> cs ! i"
  proof
    fix c assume "c \<in> set (rev (take (Suc i) cs))"
    then obtain k where "k < Suc i" "c = cs ! k"
      using assms(2) by (auto simp: in_set_conv_nth)
    then show "c \<le> cs ! i"
      using assms by (cases "k = i") (auto simp: less_Suc_eq less_imp_le)
  qed
  then have "takeWhile (\<lambda>c. c \<le> cs ! i) (rev (take (Suc i) cs)) = rev (take (Suc i) cs)"
    by (simp add: takeWhile_eq_all_conv)
  then have "span_spec cs i = int (length (rev (take (Suc i) cs)))"
    unfolding span_spec_def by (simp only:)
  then show ?thesis using assms(2) by simp
qed

lemma span_spec_decreasing:
  assumes "\<forall>a b. a < b \<and> b < length cs \<longrightarrow> cs ! b < cs ! a" "i < length cs"
  shows "span_spec cs i = 1"
proof (cases i)
  case 0
  then show ?thesis using assms(2) by (simp add: span_spec_def take_Suc_conv_app_nth)
next
  case (Suc j)
  have "rev (take (Suc i) cs) = cs ! i # cs ! j # rev (take j cs)"
    using assms(2) Suc by (simp add: take_Suc_conv_app_nth)
  moreover have "cs ! i < cs ! j"
    using assms Suc by simp
  ultimately show ?thesis
    by (simp add: span_spec_def)
qed

text \<open>
  Claim C2. For every sequence of closing prices, \<open>calculateSpan\<close> returns a sequence
  of the same length whose \<open>i\<close>-th element is the number of consecutive bars ending at
  \<open>i\<close> (inclusive) whose close is at most \<open>closes[i]\<close>. The empty input gives the empty
  output, strictly increasing prices give the span \<open>i + 1\<close> at every \<open>i\<close>, strictly
  decreasing prices give the span 1 everywhere, and the constant prices 5, 5, 5 give
  the spans 1, 2, 3.
\<close>

theorem calculateSpan_counts_consecutive_bars:
  "length (calculateSpan closes) = length closes \<and>
   (\<forall>i<length closes. calculateSpan closes ! i = span_spec closes i) \<and>
   calculateSpan [] = [] \<and>
   (sorted_wrt (<) closes \<longrightarrow> (\<forall>i<length closes. calculateSpan closes ! i = int i + 1)) \<and>
   (sorted_wrt (>) closes \<longrightarrow> (\<forall>i<length closes. calculateSpan closes ! i = 1)) \<and>
   calculateSpan [5, 5, 5] = [1, 2, 3]"
proof (intro conjI)
  show "length (calculateSpan closes) = length closes"
    by (rule calculateSpan_length)
  show "\<forall>i<length closes. calculateSpan closes ! i = span_spec closes i"
    by (simp add: calculateSpan_nth)
  show "calculateSpan [] = []"
    by (simp add: calculateSpan_def span_loop.simps)
  show "sorted_wrt (<) closes \<longrightarrow> (\<forall>i<length closes. calculateSpan closes ! i = int i + 1)"
    by (simp add: calculateSpan_nth span_spec_increasing sorted_wrt_iff_nth_less)
  show "sorted_wrt (>) closes \<longrightarrow> (\<forall>i<length closes. calculateSpan closes ! i = 1)"
    by (simp add: calculateSpan_nth span_spec_decreasing sorted_wrt_iff_nth_less)
  show "calculateSpan [5, 5, 5] = [1, 2, 3]"
    by (simp add: calculateSpan_def span_loop.simps)
qed

theorem calculateSpan_counts_consecutive_bars_witness:
  "calculateSpan [100, 80, 60, 70, 60, 75, 85] ! 5 = 4 \<and>
   calculateSpan [10, 11, 12, 13] ! 3 = 4 \<and>
   calculateSpan [13, 12, 11, 10] ! 3 = 1"
proof -
  have "\<forall>i<length [100, 80, 60, 70, 60, 75, 85 :: real].
          calculateSpan [100, 80, 60, 70, 60, 75, 85] ! i = span_spec [100, 80, 60, 70, 60, 75, 85] i"
    using calculateSpan_counts_consecutive_bars [of "[100, 80, 60, 70, 60, 75, 85]"] by blast
  moreover have "(5::nat) < length [100, 80, 60, 70, 60, 75, 85 :: real]"
    by simp
  ultimately have "calculateSpan [100, 80, 60, 70, 60, 75, 85] ! 5 = span_spec [100, 80, 60, 70, 60, 75, 85] 5"
    by blast
  then have a: "calculateSpan [100, 80, 60, 70, 60, 75, 85] ! 5 = 4"
    by (simp add: span_spec_def)
  have "sorted_wrt (<) [10, 11, 12, 13 :: real]"
    by simp
  then have "\<forall>i<length [10, 11, 12, 13 :: real]. calculateSpan [10, 11, 12, 13] ! i = int i + 1"
    using calculateSpan_counts_consecutive_bars [of "[10, 11, 12, 13]"] by blast
  moreover have "(3::nat) < length [10, 11, 12, 13 :: real]"
    by simp
  ultimately have "calculateSpan [10, 11, 12, 13] ! 3 = int 3 + 1"
    by blast
  then have b: "calculateSpan [10, 11, 12, 13] ! 3 = 4"
    by simp
  have "sorted_wrt (>) [13, 12, 11, 10 :: real]"
    by simp
  then have "\<forall>i<length [13, 12, 11, 10 :: real]. calculateSpan [13, 12, 11, 10] ! i = 1"
    using calculateSpan_counts_consecutive_bars [of "[13, 12, 11, 10]"] by blast
  moreover have "(3::nat) < length [13, 12, 11, 10 :: real]"
    by simp
  ultimately have c: "calculateSpan [13, 12, 11, 10] ! 3 = 1"
    by blast
  from a b c show ?thesis
    by simp
qed

text \<open>
  Claim C7. For every sequence of closing prices that is not empty, the output of the
  span engine is as long as its input, and every element satisfies
  \<open>1 \<le> span[i] \<le> i + 1\<close>.
\<close>

theorem calculateSpan_bounds:
  "closes \<noteq> [] \<Longrightarrow>
   length (calculateSpan closes) = length closes \<and>
   (\<forall>i<length closes. 1 \<le> calculateSpan closes ! i \<and> calculateSpan closes ! i \<le> int i + 1)"
  by (simp add: calculateSpan_length calculateSpan_nth span_spec_bounds)

theorem calculateSpan_bounds_witness:
  "[100, 80, 60, 70, 60, 75, 85 :: real] \<noteq> [] \<and>
   length (calculateSpan [100, 80, 60, 70, 60, 75, 85]) = 7 \<and>
   1 \<le> calculateSpan [100, 80, 60, 70, 60, 75, 85] ! 6 \<and>
   calculateSpan [100, 80, 60, 70, 60, 75, 85] ! 6 \<le> 7"
proof -
  have ne: "[100, 80, 60, 70, 60, 75, 85 :: real] \<noteq> []"
    by simp
  note r = calculateSpan_bounds [OF ne]
  have len: "length (calculateSpan [100, 80, 60, 70, 60, 75, 85]) = 7"
    using r by simp
  have "(6::nat) < length [100, 80, 60, 70, 60, 75, 85 :: real]"
    by simp
  with r have "1 \<le> calculateSpan [100, 80, 60, 70, 60, 75, 85] ! 6 \<and>
      calculateSpan [100, 80, 60, 70, 60, 75, 85] ! 6 \<le> int 6 + 1"
    by blast
  with ne len show ?thesis
    by simp
qed

section \<open>Rounding to doubles\<close>

lemma quantum_exp_eq:
  assumes "2 powi e \<le> \<bar>x\<bar>" "\<bar>x\<bar> < 2 powi (e + 1)"
  shows "quantum_exp x = max (e - 52) (- 1074)"
proof -
  have pos: "0 < \<bar>x\<bar>"
    using assms(1) by (smt (verit) zero_less_power_int)
  have a: "(2::real) powr real_of_int e = 2 powi e"
    by (simp add: powr_real_of_int')
  have "(2::real) powr real_of_int (e + 1) = 2 powi (e + 1)"
    by (rule powr_real_of_int') simp_all
  then have b: "(2::real) powr (real_of_int e + 1) = 2 powi (e + 1)"
    by simp
  have "(2::real) powr real_of_int e \<le> \<bar>x\<bar>" "\<bar>x\<bar> < (2::real) powr (real_of_int e + 1)"
    unfolding a b using assms by simp_all
  then have "\<lfloor>log 2 \<bar>x\<bar>\<rfloor> = e"
    using floor_log_eq_powr_iff [of "\<bar>x\<bar>" 2 e] pos by simp
  then show ?thesis
    by (simp add: quantum_exp_def)
qed

lemma fl_eq:
  assumes "2 powi e \<le> \<bar>x\<bar>" "\<bar>x\<bar> < 2 powi (e + 1)"
  shows "fl x = of_int (round_half_even (x / 2 powi max (e - 52) (- 1074))) * 2 powi max (e - 52) (- 1074)"
proof -
  have "x \<noteq> 0"
    using assms(1) by (smt (verit) zero_less_power_int abs_zero)
  then show ?thesis
    by (simp add: fl_def quantum_exp_eq [OF assms])
qed

section \<open>The moving averages are means up to rounding\<close>




























































section \<open>The correlation of sentiment and span\<close>

lemma corr_1: "fl (3 / 10) = 5404319552844595 / 18014398509481984"
  by (subst fl_eq [where e = "- 2"]) (simp_all add: round_half_even_def Let_def)

lemma corr_2: "js_add 0 (5404319552844595 / 18014398509481984) = 5404319552844595 / 18014398509481984"
  unfolding js_add_def by (subst fl_eq [where e = "- 2"]) (simp_all add: round_half_even_def Let_def)

lemma corr_3: "js_add (5404319552844595 / 18014398509481984) (5404319552844595 / 18014398509481984) = 5404319552844595 / 9007199254740992"
  unfolding js_add_def by (subst fl_eq [where e = "- 1"]) (simp_all add: round_half_even_def Let_def)

lemma corr_4: "js_add (5404319552844595 / 9007199254740992) (5404319552844595 / 18014398509481984) = 2026619832316723 / 2251799813685248"
  unfolding js_add_def by (subst fl_eq [where e = "- 1"]) (simp_all add: round_half_even_def Let_def)

lemma corr_5: "js_add (2026619832316723 / 2251799813685248) (5404319552844595 / 18014398509481984) = 5404319552844595 / 4503599627370496"
  unfolding js_add_def by (subst fl_eq [where e = "0"]) (simp_all add: round_half_even_def Let_def)

lemma corr_6: "js_add (5404319552844595 / 4503599627370496) (5404319552844595 / 18014398509481984) = 3 / 2"
  unfolding js_add_def by (subst fl_eq [where e = "0"]) (simp_all add: round_half_even_def Let_def)

lemma corr_7: "js_add (3 / 2) (5404319552844595 / 18014398509481984) = 8106479329266893 / 4503599627370496"
  unfolding js_add_def by (subst fl_eq [where e = "0"]) (simp_all add: round_half_even_def Let_def)

lemma corr_8: "js_add 0 1 = 1"
  unfolding js_add_def by (subst fl_eq [where e = "0"]) (simp_all add: round_half_even_def Let_def)

lemma corr_9: "js_add 1 2 = 3"
  unfolding js_add_def by (subst fl_eq [where e = "1"]) (simp_all add: round_half_even_def Let_def)

lemma corr_10: "js_add 3 3 = 6"
  unfolding js_add_def by (subst fl_eq [where e = "2"]) (simp_all add: round_half_even_def Let_def)

lemma corr_11: "js_add 6 4 = 10"
  unfolding js_add_def by (subst fl_eq [where e = "3"]) (simp_all add: round_half_even_def Let_def)

lemma corr_12: "js_add 10 5 = 15"
  unfolding js_add_def by (subst fl_eq [where e = "3"]) (simp_all add: round_half_even_def Let_def)

lemma corr_13: "js_add 15 6 = 21"
  unfolding js_add_def by (subst fl_eq [where e = "4"]) (simp_all add: round_half_even_def Let_def)

lemma corr_14: "js_mul (5404319552844595 / 18014398509481984) (5404319552844595 / 18014398509481984) = 3242591731706757 / 36028797018963968"
  unfolding js_mul_def by (subst fl_eq [where e = "- 4"]) (simp_all add: round_half_even_def Let_def)

lemma corr_15: "js_add 0 (3242591731706757 / 36028797018963968) = 3242591731706757 / 36028797018963968"
  unfolding js_add_def by (subst fl_eq [where e = "- 4"]) (simp_all add: round_half_even_def Let_def)

lemma corr_16: "js_add (3242591731706757 / 36028797018963968) (3242591731706757 / 36028797018963968) = 3242591731706757 / 18014398509481984"
  unfolding js_add_def by (subst fl_eq [where e = "- 3"]) (simp_all add: round_half_even_def Let_def)

lemma corr_17: "js_add (3242591731706757 / 18014398509481984) (3242591731706757 / 36028797018963968) = 607985949695017 / 2251799813685248"
  unfolding js_add_def by (subst fl_eq [where e = "- 2"]) (simp_all add: round_half_even_def Let_def)

lemma corr_18: "js_add (607985949695017 / 2251799813685248) (3242591731706757 / 36028797018963968) = 3242591731706757 / 9007199254740992"
  unfolding js_add_def by (subst fl_eq [where e = "- 2"]) (simp_all add: round_half_even_def Let_def)

lemma corr_19: "js_add (3242591731706757 / 9007199254740992) (3242591731706757 / 36028797018963968) = 2026619832316723 / 4503599627370496"
  unfolding js_add_def by (subst fl_eq [where e = "- 2"]) (simp_all add: round_half_even_def Let_def)

lemma corr_20: "js_add (2026619832316723 / 4503599627370496) (3242591731706757 / 36028797018963968) = 4863887597560135 / 9007199254740992"
  unfolding js_add_def by (subst fl_eq [where e = "- 1"]) (simp_all add: round_half_even_def Let_def)

lemma corr_21: "js_mul 1 1 = 1"
  unfolding js_mul_def by (subst fl_eq [where e = "0"]) (simp_all add: round_half_even_def Let_def)

lemma corr_22: "js_mul 2 2 = 4"
  unfolding js_mul_def by (subst fl_eq [where e = "2"]) (simp_all add: round_half_even_def Let_def)

lemma corr_23: "js_add 1 4 = 5"
  unfolding js_add_def by (subst fl_eq [where e = "2"]) (simp_all add: round_half_even_def Let_def)

lemma corr_24: "js_mul 3 3 = 9"
  unfolding js_mul_def by (subst fl_eq [where e = "3"]) (simp_all add: round_half_even_def Let_def)

lemma corr_25: "js_add 5 9 = 14"
  unfolding js_add_def by (subst fl_eq [where e = "3"]) (simp_all add: round_half_even_def Let_def)

lemma corr_26: "js_mul 4 4 = 16"
  unfolding js_mul_def by (subst fl_eq [where e = "4"]) (simp_all add: round_half_even_def Let_def)

lemma corr_27: "js_add 14 16 = 30"
  unfolding js_add_def by (subst fl_eq [where e = "4"]) (simp_all add: round_half_even_def Let_def)

lemma corr_28: "js_mul 5 5 = 25"
  unfolding js_mul_def by (subst fl_eq [where e = "4"]) (simp_all add: round_half_even_def Let_def)

lemma corr_29: "js_add 30 25 = 55"
  unfolding js_add_def by (subst fl_eq [where e = "5"]) (simp_all add: round_half_even_def Let_def)

lemma corr_30: "js_mul 6 6 = 36"
  unfolding js_mul_def by (subst fl_eq [where e = "5"]) (simp_all add: round_half_even_def Let_def)

lemma corr_31: "js_add 55 36 = 91"
  unfolding js_add_def by (subst fl_eq [where e = "6"]) (simp_all add: round_half_even_def Let_def)

lemma corr_32: "js_mul 6 (4863887597560135 / 9007199254740992) = 3647915698170101 / 1125899906842624"
  unfolding js_mul_def by (subst fl_eq [where e = "1"]) (simp_all add: round_half_even_def Let_def)

lemma corr_33: "js_mul (8106479329266893 / 4503599627370496) (8106479329266893 / 4503599627370496) = 1823957849085051 / 562949953421312"
  unfolding js_mul_def by (subst fl_eq [where e = "1"]) (simp_all add: round_half_even_def Let_def)

lemma corr_34: "js_sub (3647915698170101 / 1125899906842624) (1823957849085051 / 562949953421312) = - (1 / 1125899906842624)"
  unfolding js_sub_def by (subst fl_eq [where e = "- 50"]) (simp_all add: round_half_even_def Let_def)

lemma corr_35: "js_mul 6 91 = 546"
  unfolding js_mul_def by (subst fl_eq [where e = "9"]) (simp_all add: round_half_even_def Let_def)

lemma corr_36: "js_mul 21 21 = 441"
  unfolding js_mul_def by (subst fl_eq [where e = "8"]) (simp_all add: round_half_even_def Let_def)

lemma corr_37: "js_sub 546 441 = 105"
  unfolding js_sub_def by (subst fl_eq [where e = "6"]) (simp_all add: round_half_even_def Let_def)

lemma corr_38: "js_mul (- (1 / 1125899906842624)) 105 = - (105 / 1125899906842624)"
  unfolding js_mul_def by (subst fl_eq [where e = "- 44"]) (simp_all add: round_half_even_def Let_def)

lemmas corr_facts =
  corr_1 corr_2 corr_3 corr_4 corr_5 corr_6
  corr_7 corr_8 corr_9 corr_10 corr_11 corr_12
  corr_13 corr_14 corr_15 corr_16 corr_17 corr_18
  corr_19 corr_20 corr_21 corr_22 corr_23 corr_24
  corr_25 corr_26 corr_27 corr_28 corr_29 corr_30
  corr_31 corr_32 corr_33 corr_34 corr_35 corr_36
  corr_37 corr_38

text \<open>
  Claim C4. The correlation should be 0, and neither an error nor NaN, whenever one of
  the series has zero variance. For six sentiment scores 0.3 (the nearest double) against
  the spans 1 to 6 the rounded \<open>n * sumXX - sumX * sumX\<close> is negative, about
  \<open>-8.9e-16\<close>, so the radicand is negative, its square root is NaN, the test
  \<open>denominator === 0\<close> fails and the result is NaN.
\<close>

theorem calculateSentimentSpanCorrelation_constant_scores:
  "calculateSentimentSpanCorrelation
     [\<lparr>s_date = ''2024-01-01'', score = fl (3 / 10), confidence = 1, s_volume = 500\<rparr>,
      \<lparr>s_date = ''2024-01-02'', score = fl (3 / 10), confidence = 1, s_volume = 500\<rparr>,
      \<lparr>s_date = ''2024-01-03'', score = fl (3 / 10), confidence = 1, s_volume = 500\<rparr>,
      \<lparr>s_date = ''2024-01-04'', score = fl (3 / 10), confidence = 1, s_volume = 500\<rparr>,
      \<lparr>s_date = ''2024-01-05'', score = fl (3 / 10), confidence = 1, s_volume = 500\<rparr>,
      \<lparr>s_date = ''2024-01-06'', score = fl (3 / 10), confidence = 1, s_volume = 500\<rparr>]
     [\<lparr>date = ''2024-01-01'', open_f = 11, high = 11, low = 11, close = 11, volume = 1000000,
        span_f = Some 1\<rparr>,
      \<lparr>date = ''2024-01-02'', open_f = 12, high = 12, low = 12, close = 12, volume = 1000000,
        span_f = Some 2\<rparr>,
      \<lparr>date = ''2024-01-03'', open_f = 13, high = 13, low = 13, close = 13, volume = 1000000,
        span_f = Some 3\<rparr>,
      \<lparr>date = ''2024-01-04'', open_f = 14, high = 14, low = 14, close = 14, volume = 1000000,
        span_f = Some 4\<rparr>,
      \<lparr>date = ''2024-01-05'', open_f = 15, high = 15, low = 15, close = 15, volume = 1000000,
        span_f = Some 5\<rparr>,
      \<lparr>date = ''2024-01-06'', open_f = 16, high = 16, low = 16, close = 16, volume = 1000000,
        span_f = Some 6\<rparr>] = Inl NonFinite"
  by (simp add: calculateSentimentSpanCorrelation_def pearsonCorrelation_def Let_def span_or_0_def
      corr_facts)

theorem calculateSentimentSpanCorrelation_constant_scores_witness:
  "length
     [\<lparr>s_date = ''2024-01-01'', score = fl (3 / 10), confidence = 1, s_volume = 500\<rparr>,
      \<lparr>s_date = ''2024-01-02'', score = fl (3 / 10), confidence = 1, s_volume = 500\<rparr>,
      \<lparr>s_date = ''2024-01-03'', score = fl (3 / 10), confidence = 1, s_volume = 500\<rparr>,
      \<lparr>s_date = ''2024-01-04'', score = fl (3 / 10), confidence = 1, s_volume = 500\<rparr>,
      \<lparr>s_date = ''2024-01-05'', score = fl (3 / 10), confidence = 1, s_volume = 500\<rparr>,
      \<lparr>s_date = ''2024-01-06'', score = fl (3 / 10), confidence = 1, s_volume = 500\<rparr>] =
   length
     [\<lparr>date = ''2024-01-01'', open_f = 11, high = 11, low = 11, close = 11, volume = 1000000,
        span_f = Some 1\<rparr>,
      \<lparr>date = ''2024-01-02'', open_f = 12, high = 12, low = 12, close = 12, volume = 1000000,
        span_f = Some 2\<rparr>,
      \<lparr>date = ''2024-01-03'', open_f = 13, high = 13, low = 13, close = 13, volume = 1000000,
        span_f = Some 3\<rparr>,
      \<lparr>date = ''2024-01-04'', open_f = 14, high = 14, low = 14, close = 14, volume = 1000000,
        span_f = Some 4\<rparr>,
      \<lparr>date = ''2024-01-05'', open_f = 15, high = 15, low = 15, close = 15, volume = 1000000,
        span_f = Some 5\<rparr>,
      \<lparr>date = ''2024-01-06'', open_f = 16, high = 16, low = 16, close = 16, volume = 1000000,
        span_f = Some 6\<rparr>] \<and>
   \<not> length
     [\<lparr>s_date = ''2024-01-01'', score = fl (3 / 10), confidence = 1, s_volume = 500\<rparr>,
      \<lparr>s_date = ''2024-01-02'', score = fl (3 / 10), confidence = 1, s_volume = 500\<rparr>,
      \<lparr>s_date = ''2024-01-03'', score = fl (3 / 10), confidence = 1, s_volume = 500\<rparr>,
      \<lparr>s_date = ''2024-01-04'', score = fl (3 / 10), confidence = 1, s_volume = 500\<rparr>,
      \<lparr>s_date = ''2024-01-05'', score = fl (3 / 10), confidence = 1, s_volume = 500\<rparr>,
      \<lparr>s_date = ''2024-01-06'', score = fl (3 / 10), confidence = 1, s_volume = 500\<rparr>] < 2 \<and>
   calculateSentimentSpanCorrelation
     [\<lparr>s_date = ''2024-01-01'', score = fl (3 / 10), confidence = 1, s_volume = 500\<rparr>,
      \<lparr>s_date = ''2024-01-02'', score = fl (3 / 10), confidence = 1, s_volume = 500\<rparr>,
      \<lparr>s_date = ''2024-01-03'', score = fl (3 / 10), confidence = 1, s_volume = 500\<rparr>,
      \<lparr>s_date = ''2024-01-04'', score = fl (3 / 10), confidence = 1, s_volume = 500\<rparr>,
      \<lparr>s_date = ''2024-01-05'', score = fl (3 / 10), confidence = 1, s_volume = 500\<rparr>,
      \<lparr>s_date = ''2024-01-06'', score = fl (3 / 10), confidence = 1, s_volume = 500\<rparr>]
     [\<lparr>date = ''2024-01-01'', open_f = 11, high = 11, low = 11, close = 11, volume = 1000000,
        span_f = Some 1\<rparr>,
      \<lparr>date = ''2024-01-02'', open_f = 12, high = 12, low = 12, close = 12, volume = 1000000,
        span_f = Some 2\<rparr>,
      \<lparr>date = ''2024-01-03'', open_f = 13, high = 13, low = 13, close = 13, volume = 1000000,
        span_f = Some 3\<rparr>,
      \<lparr>date = ''2024-01-04'', open_f = 14, high = 14, low = 14, close = 14, volume = 1000000,
        span_f = Some 4\<rparr>,
      \<lparr>date = ''2024-01-05'', open_f = 15, high = 15, low = 15, close = 15, volume = 1000000,
        span_f = Some 5\<rparr>,
      \<lparr>date = ''2024-01-06'', open_f = 16, high = 16, low = 16, close = 16, volume = 1000000,
        span_f = Some 6\<rparr>] \<noteq> Inr 0"
  using calculateSentimentSpanCorrelation_constant_scores by simp

section \<open>The query router\<close>

lemma handleMovingAverageQuery_not_empty: "handleMovingAverageQuery ai q \<noteq> []"
  by (simp add: handleMovingAverageQuery_def Let_def)

lemma handleCurrentSpanQuery_not_empty: "handleCurrentSpanQuery ai \<noteq> []"
  by (simp add: handleCurrentSpanQuery_def Let_def)

lemma handlePriceQuery_not_empty: "handlePriceQuery ai \<noteq> []"
  by (simp add: handlePriceQuery_def Let_def)

lemma handleTrendQuery_not_empty: "handleTrendQuery ai \<noteq> []"
  by (simp add: handleTrendQuery_def Let_def)

lemma handleRecommendationQuery_not_empty: "handleRecommendationQuery ai \<noteq> []"
  by (simp add: handleRecommendationQuery_def Let_def emoji_bar_chart_def)

lemma handleHighQuery_not_empty: "handleHighQuery ai \<noteq> []"
  by (simp add: handleHighQuery_def Let_def)

lemma handleLowQuery_not_empty: "handleLowQuery ai \<noteq> []"
  by (simp add: handleLowQuery_def Let_def)

lemma find_match_patterns:
  "find_match patterns ai nq =
     (if str_match nq pattern_moving_average \<noteq> None then Some (handleMovingAverageQuery ai nq)
      else if str_match nq pattern_span \<noteq> None then Some (handleCurrentSpanQuery ai)
      else if str_match nq pattern_price \<noteq> None then Some (handlePriceQuery ai)
      else if str_match nq pattern_trend \<noteq> None then Some (handleTrendQuery ai)
      else if str_match nq pattern_recommendation \<noteq> None then Some (handleRecommendationQuery ai)
      else if str_match nq pattern_high \<noteq> None then Some (handleHighQuery ai)
      else if str_match nq pattern_low \<noteq> None then Some (handleLowQuery ai)
      else None)"
  by (simp add: patterns_def)

lemma find_match_not_empty: "find_match patterns ai nq = Some answer \<Longrightarrow> answer \<noteq> []"
  unfolding find_match_patterns
  using handleMovingAverageQuery_not_empty handleCurrentSpanQuery_not_empty
    handlePriceQuery_not_empty handleTrendQuery_not_empty handleRecommendationQuery_not_empty
    handleHighQuery_not_empty handleLowQuery_not_empty
  by (auto split: if_splits)

lemma responses_not_empty: "t \<in> set responses \<Longrightarrow> t \<noteq> []"
  by (auto simp: responses_def)

lemma getDefaultResponse_in_responses:
  assumes "0 \<le> rnd" "rnd < 1"
  shows "\<exists>t. getDefaultResponse rnd q = Some t \<and> t \<in> set responses"
proof -
  let ?k = "\<lfloor>rnd * 3\<rfloor>"
  have len: "length responses = 3"
    by (simp add: responses_def)
  have "0 \<le> rnd * 3" "rnd * 3 < 3"
    using assms by simp_all
  then have k: "0 \<le> ?k" "?k < 3"
    by (simp_all add: floor_less_iff)
  then have "nat ?k < length responses"
    unfolding len by linarith
  then have "responses ! nat ?k \<in> set responses"
    by (rule nth_mem)
  moreover have "getDefaultResponse rnd q = Some (responses ! nat ?k)"
    unfolding getDefaultResponse_def Let_def len using k by simp
  ultimately show ?thesis by blast
qed

text \<open>
  Claim C5. For every query text, the router lower-cases and trims it, tries the intent
  patterns in the fixed order moving average, span, price, trend, recommendation, high,
  low, and answers with the handler of the first pattern that matches; if none matches
  the answer is the default response. So a query that several patterns match is always
  handled by the earliest of them.
\<close>

theorem processQuery_dispatch_order:
  "let nq = trim (toLowerCase query); m = (\<lambda>p. str_match nq p \<noteq> None) in
     (m pattern_moving_average \<longrightarrow>
        processQuery ai rnd query = Some (handleMovingAverageQuery ai nq)) \<and>
     (\<not> m pattern_moving_average \<and> m pattern_span \<longrightarrow>
        processQuery ai rnd query = Some (handleCurrentSpanQuery ai)) \<and>
     (\<not> m pattern_moving_average \<and> \<not> m pattern_span \<and> m pattern_price \<longrightarrow>
        processQuery ai rnd query = Some (handlePriceQuery ai)) \<and>
     (\<not> m pattern_moving_average \<and> \<not> m pattern_span \<and> \<not> m pattern_price \<and> m pattern_trend \<longrightarrow>
        processQuery ai rnd query = Some (handleTrendQuery ai)) \<and>
     (\<not> m pattern_moving_average \<and> \<not> m pattern_span \<and> \<not> m pattern_price \<and> \<not> m pattern_trend \<and>
      m pattern_recommendation \<longrightarrow>
        processQuery ai rnd query = Some (handleRecommendationQuery ai)) \<and>
     (\<not> m pattern_moving_average \<and> \<not> m pattern_span \<and> \<not> m pattern_price \<and> \<not> m pattern_trend \<and>
      \<not> m pattern_recommendation \<and> m pattern_high \<longrightarrow>
        processQuery ai rnd query = Some (handleHighQuery ai)) \<and>
     (\<not> m pattern_moving_average \<and> \<not> m pattern_span \<and> \<not> m pattern_price \<and> \<not> m pattern_trend \<and>
      \<not> m pattern_recommendation \<and> \<not> m pattern_high \<and> m pattern_low \<longrightarrow>
        processQuery ai rnd query = Some (handleLowQuery ai)) \<and>
     (\<not> m pattern_moving_average \<and> \<not> m pattern_span \<and> \<not> m pattern_price \<and> \<not> m pattern_trend \<and>
      \<not> m pattern_recommendation \<and> \<not> m pattern_high \<and> \<not> m pattern_low \<longrightarrow>
        processQuery ai rnd query = getDefaultResponse rnd nq)"
  unfolding processQuery_def Let_def find_match_patterns by simp

lemma nq_price_trend: "trim (toLowerCase ''  Price TREND please '') = ''price trend please''"
  by code_simp

lemma price_trend_matches:
  "str_match ''price trend please'' pattern_moving_average = None"
  "str_match ''price trend please'' pattern_span = None"
  "str_match ''price trend please'' pattern_price = Some ''price''"
  "str_match ''price trend please'' pattern_trend = Some ''trend''"
  by code_simp+

theorem processQuery_dispatch_order_witness:
  "str_match ''price trend please'' pattern_price \<noteq> None \<and>
   str_match ''price trend please'' pattern_trend \<noteq> None \<and>
   processQuery \<lparr>stockData = [], movingAverages = []\<rparr> 0 ''  Price TREND please '' =
     Some ''No stock data available. Please upload data to see current price.''"
  using processQuery_dispatch_order [of "''  Price TREND please ''" "\<lparr>stockData = [], movingAverages = []\<rparr>" 0]
  by (simp add: Let_def nq_price_trend price_trend_matches handlePriceQuery_def)

lemma empty_query_matches:
  "str_match [] pattern_moving_average = None"
  "str_match [] pattern_span = None"
  "str_match [] pattern_price = None"
  "str_match [] pattern_trend = None"
  "str_match [] pattern_recommendation = None"
  "str_match [] pattern_high = None"
  "str_match [] pattern_low = None"
  by code_simp+

text \<open>
  Claim C8. For every query text (the empty text and gibberish included) and every context,
  answering the query returns a string that is not empty and never fails, \<open>Math.random\<close>
  returning a number from 0 up to but excluding 1: the branch of every handler for
  missing data returns an advisory text, and a query that no pattern matches gets one of
  a fixed set of guidance texts, which is not empty and has no empty member.
\<close>

theorem processQuery_always_answers:
  "(0 \<le> rnd \<and> rnd < 1 \<longrightarrow>
      (\<exists>answer. processQuery ai rnd query = Some answer \<and> answer \<noteq> [] \<and>
         (find_match patterns ai (trim (toLowerCase query)) = None \<longrightarrow> answer \<in> set responses))) \<and>
   (movingAverages ai = [] \<longrightarrow>
      handleMovingAverageQuery ai query =
        ''I don't have any stock data loaded yet. Please upload some data first.'') \<and>
   (stockData ai = [] \<longrightarrow>
      handleCurrentSpanQuery ai = ''No stock data available. Please upload data to see span analysis.'' \<and>
      handlePriceQuery ai = ''No stock data available. Please upload data to see current price.'' \<and>
      handleHighQuery ai = ''No data available to find highest price.'' \<and>
      handleLowQuery ai = ''No data available to find lowest price.'') \<and>
   (length (stockData ai) < 5 \<longrightarrow>
      handleTrendQuery ai =
        ''I need more data to analyze the trend. Please provide at least 5 days of data.'') \<and>
   (stockData ai = [] \<or> movingAverages ai = [] \<longrightarrow>
      handleRecommendationQuery ai =
        ''I need stock data to provide recommendations. Please upload data first.'') \<and>
   responses \<noteq> [] \<and> [] \<notin> set responses"
proof (intro conjI impI)
  assume r: "0 \<le> rnd \<and> rnd < 1"
  show "\<exists>answer. processQuery ai rnd query = Some answer \<and> answer \<noteq> [] \<and>
         (find_match patterns ai (trim (toLowerCase query)) = None \<longrightarrow> answer \<in> set responses)"
  proof (cases "find_match patterns ai (trim (toLowerCase query))")
    case None
    from r obtain t where "getDefaultResponse rnd (trim (toLowerCase query)) = Some t" "t \<in> set responses"
      using getDefaultResponse_in_responses by blast
    then show ?thesis
      using None responses_not_empty by (auto simp: processQuery_def Let_def)
  next
    case (Some t)
    then show ?thesis
      using find_match_not_empty [OF Some] by (simp add: processQuery_def Let_def)
  qed
qed (auto simp: handleMovingAverageQuery_def handleCurrentSpanQuery_def handlePriceQuery_def
    handleHighQuery_def handleLowQuery_def handleTrendQuery_def handleRecommendationQuery_def
    responses_def)

theorem processQuery_always_answers_witness:
  "(0::real) \<le> 1 / 2 \<and> (1 / 2 :: real) < 1 \<and>
   find_match patterns \<lparr>stockData = [], movingAverages = []\<rparr> (trim (toLowerCase [])) = None \<and>
   (\<exists>answer. processQuery \<lparr>stockData = [], movingAverages = []\<rparr> (1 / 2) [] = Some answer \<and> answer \<noteq> [] \<and>
      answer \<in> set responses)"
proof -
  have r: "(0::real) \<le> 1 / 2 \<and> (1 / 2 :: real) < 1"
    by simp
  have n: "find_match patterns \<lparr>stockData = [], movingAverages = []\<rparr> (trim (toLowerCase [])) = None"
    by (simp add: find_match_patterns trim_def toLowerCase_def empty_query_matches)
  from processQuery_always_answers [THEN conjunct1, THEN mp, OF r,
      of "\<lparr>stockData = [], movingAverages = []\<rparr>" "[]"] n
  have "\<exists>answer. processQuery \<lparr>stockData = [], movingAverages = []\<rparr> (1 / 2) [] = Some answer \<and> answer \<noteq> [] \<and>
      answer \<in> set responses"
    by blast
  with r n show ?thesis
    by blast
qed

lemma signal_includes:
  "str_includes ''Price above 10-day MA (Bullish)'' ''Bullish'' = True"
  "str_includes ''Price above 10-day MA (Bullish)'' ''Bearish'' = False"
  "str_includes ''Price below 10-day MA (Bearish)'' ''Bullish'' = False"
  "str_includes ''Price below 10-day MA (Bearish)'' ''Bearish'' = True"
  "str_includes ''High span indicates strong momentum (Bullish)'' ''Bullish'' = True"
  "str_includes ''High span indicates strong momentum (Bullish)'' ''Bearish'' = False"
  "str_includes ''Low span indicates weak momentum (Bearish)'' ''Bullish'' = False"
  "str_includes ''Low span indicates weak momentum (Bearish)'' ''Bearish'' = True"
  by code_simp+

lemma handleRecommendationQuery_eq:
  assumes "stockData ai \<noteq> []" "movingAverages ai \<noteq> []"
  shows "(let latest = last (stockData ai);
         ma = or_0 (ma10 (last (movingAverages ai)));
         span = span_or_0 latest;
         bullish = (if close latest > ma then 1 else 0) + (if span > 7 then 1 else (0::nat));
         bearish = (if close latest < ma then 1 else 0) + (if span \<le> 2 then 1 else (0::nat));
         signals =
           (if close latest > ma then [''Price above 10-day MA (Bullish)''] else [])
           @ (if close latest < ma then [''Price below 10-day MA (Bearish)''] else [])
           @ (if span > 7 then [''High span indicates strong momentum (Bullish)''] else [])
           @ (if span \<le> 2 then [''Low span indicates weak momentum (Bearish)''] else [])
     in handleRecommendationQuery ai =
          emoji_bar_chart @ '' **''
          @ (if bullish > bearish then ''BUY'' else if bearish > bullish then ''SELL'' else ''HOLD'')
          @ ''** - ''
          @ (if bullish > bearish
             then ''Multiple bullish indicators align for a potential buying opportunity.''
             else if bearish > bullish
             then ''Bearish signals suggest considering a sell position.''
             else ''Mixed signals suggest holding current position.'')
          @ [CHR 0x0A, CHR 0x0A] @ ''Signals: '' @ join '', '' signals)"
proof -
  let ?latest = "last (stockData ai)"
  let ?ma = "or_0 (ma10 (last (movingAverages ai)))"
  let ?span = "span_or_0 ?latest"
  consider "close ?latest > ?ma" | "close ?latest < ?ma" | "close ?latest = ?ma"
    by linarith
  then show ?thesis
  proof cases
    case 1
    consider "?span > 7" | "?span \<le> 2" | "2 < ?span" "?span \<le> 7" by linarith
    then show ?thesis
      using 1 assms
      by cases (simp_all add: handleRecommendationQuery_def recommendation_signals_def Let_def signal_includes)
  next
    case 2
    consider "?span > 7" | "?span \<le> 2" | "2 < ?span" "?span \<le> 7" by linarith
    then show ?thesis
      using 2 assms
      by cases (simp_all add: handleRecommendationQuery_def recommendation_signals_def Let_def signal_includes)
  next
    case 3
    consider "?span > 7" | "?span \<le> 2" | "2 < ?span" "?span \<le> 7" by linarith
    then show ?thesis
      using 3 assms
      by cases (simp_all add: handleRecommendationQuery_def recommendation_signals_def Let_def signal_includes)
  qed
qed

lemma nq_buy_or_sell: "trim (toLowerCase ''should I buy or sell'') = ''should i buy or sell''"
  by code_simp

lemma buy_or_sell_matches:
  "str_match ''should i buy or sell'' pattern_moving_average = None"
  "str_match ''should i buy or sell'' pattern_span = None"
  "str_match ''should i buy or sell'' pattern_price = None"
  "str_match ''should i buy or sell'' pattern_trend = None"
  "str_match ''should i buy or sell'' pattern_recommendation = Some ''buy''"
  by code_simp+

text \<open>
  Claim C6. For every context whose series and averages are not empty, the
  recommendation handler builds its signals from the latest close against the latest
  10-day average (above is bullish, below is bearish; an average that is missing counts
  as 0) and from the latest span (above 7 is bullish, at most 2 is bearish; a span that
  is missing counts as 0). It answers BUY exactly when the bullish signals outnumber the
  bearish ones, SELL when the bearish outnumber the bullish, and HOLD otherwise, and
  lists the signals. The query "should I buy or sell" with the close above \<open>ma10\<close> and
  the span 9 gets BUY with both bullish signals.
\<close>

theorem handleRecommendationQuery_signals:
  "(stockData ai \<noteq> [] \<and> movingAverages ai \<noteq> [] \<longrightarrow>
      (let latest = last (stockData ai);
           ma = or_0 (ma10 (last (movingAverages ai)));
           span = span_or_0 latest;
           bullish = (if close latest > ma then 1 else 0) + (if span > 7 then 1 else (0::nat));
           bearish = (if close latest < ma then 1 else 0) + (if span \<le> 2 then 1 else (0::nat));
           signals =
             (if close latest > ma then [''Price above 10-day MA (Bullish)''] else [])
             @ (if close latest < ma then [''Price below 10-day MA (Bearish)''] else [])
             @ (if span > 7 then [''High span indicates strong momentum (Bullish)''] else [])
             @ (if span \<le> 2 then [''Low span indicates weak momentum (Bearish)''] else [])
       in handleRecommendationQuery ai =
            emoji_bar_chart @ '' **''
            @ (if bullish > bearish then ''BUY'' else if bearish > bullish then ''SELL'' else ''HOLD'')
            @ ''** - ''
            @ (if bullish > bearish
               then ''Multiple bullish indicators align for a potential buying opportunity.''
               else if bearish > bullish
               then ''Bearish signals suggest considering a sell position.''
               else ''Mixed signals suggest holding current position.'')
            @ [CHR 0x0A, CHR 0x0A] @ ''Signals: '' @ join '', '' signals)) \<and>
   (stockData ai \<noteq> [] \<and> movingAverages ai \<noteq> [] \<and>
    ma10 (last (movingAverages ai)) = Some m \<and> m < close (last (stockData ai)) \<and>
    span_f (last (stockData ai)) = Some 9 \<longrightarrow>
      processQuery ai rnd ''should I buy or sell'' =
        Some (emoji_bar_chart
          @ '' **BUY** - Multiple bullish indicators align for a potential buying opportunity.''
          @ [CHR 0x0A, CHR 0x0A]
          @ ''Signals: Price above 10-day MA (Bullish), High span indicates strong momentum (Bullish)''))"
proof (intro conjI impI)
  assume "stockData ai \<noteq> [] \<and> movingAverages ai \<noteq> []"
  then show "let latest = last (stockData ai);
           ma = or_0 (ma10 (last (movingAverages ai)));
           span = span_or_0 latest;
           bullish = (if close latest > ma then 1 else 0) + (if span > 7 then 1 else (0::nat));
           bearish = (if close latest < ma then 1 else 0) + (if span \<le> 2 then 1 else (0::nat));
           signals =
             (if close latest > ma then [''Price above 10-day MA (Bullish)''] else [])
             @ (if close latest < ma then [''Price below 10-day MA (Bearish)''] else [])
             @ (if span > 7 then [''High span indicates strong momentum (Bullish)''] else [])
             @ (if span \<le> 2 then [''Low span indicates weak momentum (Bearish)''] else [])
       in handleRecommendationQuery ai =
            emoji_bar_chart @ '' **''
            @ (if bullish > bearish then ''BUY'' else if bearish > bullish then ''SELL'' else ''HOLD'')
            @ ''** - ''
            @ (if bullish > bearish
               then ''Multiple bullish indicators align for a potential buying opportunity.''
               else if bearish > bullish
               then ''Bearish signals suggest considering a sell position.''
               else ''Mixed signals suggest holding current position.'')
            @ [CHR 0x0A, CHR 0x0A] @ ''Signals: '' @ join '', '' signals"
    using handleRecommendationQuery_eq [of ai] by blast
next
  assume a: "stockData ai \<noteq> [] \<and> movingAverages ai \<noteq> [] \<and>
    ma10 (last (movingAverages ai)) = Some m \<and> m < close (last (stockData ai)) \<and>
    span_f (last (stockData ai)) = Some 9"
  have "processQuery ai rnd ''should I buy or sell'' = Some (handleRecommendationQuery ai)"
    by (simp add: processQuery_def Let_def nq_buy_or_sell find_match_patterns buy_or_sell_matches)
  moreover have "handleRecommendationQuery ai =
      emoji_bar_chart
          @ '' **BUY** - Multiple bullish indicators align for a potential buying opportunity.''
          @ [CHR 0x0A, CHR 0x0A]
          @ ''Signals: Price above 10-day MA (Bullish), High span indicates strong momentum (Bullish)''"
    using a handleRecommendationQuery_eq [of ai]
    by (simp add: Let_def or_0_def span_or_0_def)
  ultimately show "processQuery ai rnd ''should I buy or sell'' =
        Some (emoji_bar_chart
          @ '' **BUY** - Multiple bullish indicators align for a potential buying opportunity.''
          @ [CHR 0x0A, CHR 0x0A]
          @ ''Signals: Price above 10-day MA (Bullish), High span indicates strong momentum (Bullish)'')"
    by simp
qed

theorem handleRecommendationQuery_signals_witness:
  "processQuery
     \<lparr>stockData = [\<lparr>date = ''2024-01-01'', open_f = 148, high = 151, low = 147, close = 150,
          volume = 1000000, span_f = Some 9\<rparr>],
      movingAverages = [\<lparr>ma_date = ''2024-01-01'', averages = [5 \<mapsto> 145, 10 \<mapsto> 140, 20 \<mapsto> 138]\<rparr>]\<rparr>
     0 ''should I buy or sell'' =
   Some (emoji_bar_chart
     @ '' **BUY** - Multiple bullish indicators align for a potential buying opportunity.''
     @ [CHR 0x0A, CHR 0x0A]
     @ ''Signals: Price above 10-day MA (Bullish), High span indicates strong momentum (Bullish)'')"
proof -
  define ai where "ai = \<lparr>stockData = [\<lparr>date = ''2024-01-01'', open_f = 148, high = 151, low = 147, close = 150,
          volume = 1000000 :: real, span_f = Some 9\<rparr>],
      movingAverages = [\<lparr>ma_date = ''2024-01-01'', averages = [5 \<mapsto> 145, 10 \<mapsto> 140, 20 \<mapsto> 138 :: real]\<rparr>]\<rparr>"
  have h: "stockData ai \<noteq> [] \<and> movingAverages ai \<noteq> [] \<and>
    ma10 (last (movingAverages ai)) = Some 140 \<and> 140 < close (last (stockData ai)) \<and>
    span_f (last (stockData ai)) = Some 9"
    by (simp add: ai_def ma10_def)
  show ?thesis
    using handleRecommendationQuery_signals [of ai 140 0, THEN conjunct2, THEN mp, OF h]
    unfolding ai_def .
qed

lemma nq_ten_day: "trim (toLowerCase ''what's the 10 day average'') = ''what's the 10 day average''"
  by code_simp

lemma ten_day_matches:
  "str_match ''what's the 10 day average'' pattern_moving_average = None"
  "str_match ''what's the 10 day average'' pattern_span = None"
  "str_match ''what's the 10 day average'' pattern_price = None"
  "str_match ''what's the 10 day average'' pattern_trend = None"
  "str_match ''what's the 10 day average'' pattern_recommendation = None"
  "str_match ''what's the 10 day average'' pattern_high = None"
  "str_match ''what's the 10 day average'' pattern_low = None"
  by code_simp+

lemma ten_day_digits:
  "str_match ''what's the 10 day average'' (Plus Digit) = Some ''10''"
  "parseInt ''10'' = 10"
  by code_simp+

lemma digit_chars:
  "digit_char 0 = CHR ''0''" "digit_char 1 = CHR ''1''" "digit_char 2 = CHR ''2''"
  "digit_char 3 = CHR ''3''" "digit_char 4 = CHR ''4''" "digit_char 5 = CHR ''5''"
  "digit_char 6 = CHR ''6''" "digit_char 7 = CHR ''7''" "digit_char 8 = CHR ''8''"
  "digit_char 9 = CHR ''9''" "digit_char (Suc 0) = CHR ''1''"
  by code_simp+

lemma toFixed2_123_45: "toFixed2 (12345 / 100) = ''123.45''"
  by (simp add: toFixed2_def Let_def nat_to_string.simps digit_chars)

lemma toFixed2_123_45_reduced: "toFixed2 (2469 / 20) = ''123.45''"
  using toFixed2_123_45 by simp

lemma responses_without_123_45:
  "\<not> str_includes (responses ! 0) ''123.45''"
  "\<not> str_includes (responses ! 1) ''123.45''"
  "\<not> str_includes (responses ! 2) ''123.45''"
  by code_simp+

text \<open>
  Claim C1. With a context whose latest moving-average record has \<open>ma10 = 123.45\<close>, the
  query "what's the 10 day average" should be answered by the moving-average handler
  with a text that contains 123.45. The moving-average pattern asks for a digit after
  the word "average", so the query matches no pattern and gets a default response, none
  of which contains 123.45, whatever the context; the handler itself, had it been
  called, answers with 123.45.
\<close>

theorem processQuery_ten_day_average_unrecognized:
  "processQuery ai rnd ''what's the 10 day average'' =
     getDefaultResponse rnd ''what's the 10 day average'' \<and>
   handleMovingAverageQuery
     \<lparr>stockData = [], movingAverages = [\<lparr>ma_date = ''2024-01-01'', averages = [10 \<mapsto> 12345 / 100]\<rparr>]\<rparr>
     ''what's the 10 day average'' = ''The 10-day moving average is $123.45.'' \<and>
   processQuery
     \<lparr>stockData = [], movingAverages = [\<lparr>ma_date = ''2024-01-01'', averages = [10 \<mapsto> 12345 / 100]\<rparr>]\<rparr>
     0 ''what's the 10 day average'' = Some (responses ! 0) \<and>
   \<not> str_includes (responses ! 0) ''123.45'' \<and>
   \<not> str_includes (responses ! 1) ''123.45'' \<and>
   \<not> str_includes (responses ! 2) ''123.45''"
proof (intro conjI)
  show d: "\<And>ai rnd. processQuery ai rnd ''what's the 10 day average'' =
     getDefaultResponse rnd ''what's the 10 day average''"
    by (simp add: processQuery_def Let_def nq_ten_day find_match_patterns ten_day_matches)
  show "handleMovingAverageQuery
     \<lparr>stockData = [], movingAverages = [\<lparr>ma_date = ''2024-01-01'', averages = [10 \<mapsto> 12345 / 100]\<rparr>]\<rparr>
     ''what's the 10 day average'' = ''The 10-day moving average is $123.45.''"
    by (simp add: handleMovingAverageQuery_def Let_def ten_day_digits ma5_def ma10_def truthy_def
        toFixed2_123_45_reduced)
  show "processQuery
     \<lparr>stockData = [], movingAverages = [\<lparr>ma_date = ''2024-01-01'', averages = [10 \<mapsto> 12345 / 100]\<rparr>]\<rparr>
     0 ''what's the 10 day average'' = Some (responses ! 0)"
    unfolding d by (simp add: getDefaultResponse_def Let_def responses_def)
qed (rule responses_without_123_45)+

section \<open>The context that the pipeline builds\<close>




















end
